theory Spec2Isabelle
  imports Complex_Main
begin

section \<open>Numbers and strings of the scripts\<close>

text \<open>
  The scripts compute with JavaScript numbers. Pitches, pitch classes, intervals, bar
  indices and meter values are integers and are modelled as \<open>int\<close>. A double is
  modelled as the \<open>real\<close> number it stands for. Beat positions are computed as exact
  reals. In the tail generator the operations on the way to a velocity, a pitch or a
  frequency are those of the engine, a parameter of the model (see \<open>arith\<close> below).
\<close>

definition js_rem :: "int \<Rightarrow> int \<Rightarrow> int" where
  \<comment> \<open>JavaScript \<open>a % b\<close> on integers: the sign follows the dividend. Every call has \<open>b = 12\<close>.\<close>
  "js_rem a b = sgn a * (\<bar>a\<bar> mod \<bar>b\<bar>)"

definition digitChar :: "nat \<Rightarrow> char" where
  "digitChar d = ''0123456789'' ! d"

fun showNat :: "nat \<Rightarrow> string" where
  "showNat n = (if n < 10 then [digitChar n] else showNat (n div 10) @ [digitChar (n mod 10)])"

definition showInt :: "int \<Rightarrow> string" where
  \<comment> \<open>Number to string conversion of an integer, as string concatenation does it.\<close>
  "showInt i = (if i < 0 then CHR ''-'' # showNat (nat (- i)) else showNat (nat i))"

fun join :: "string \<Rightarrow> string list \<Rightarrow> string" where
  "join sep [] = []"
| "join sep [x] = x"
| "join sep (x # y # ys) = x @ sep @ join sep (y # ys)"

fun indexOfFrom :: "nat \<Rightarrow> string \<Rightarrow> string \<Rightarrow> int" where
  \<comment> \<open>\<open>s.indexOf(sub)\<close>: position of the first occurrence, \<open>-1\<close> when there is none.\<close>
  "indexOfFrom k [] sub = (if sub = [] then int k else - 1)"
| "indexOfFrom k (c # cs) sub =
     (if take (length sub) (c # cs) = sub then int k else indexOfFrom (Suc k) cs sub)"

definition indexOf :: "string \<Rightarrow> string \<Rightarrow> int" where
  "indexOf s sub = indexOfFrom 0 s sub"

section \<open>ChordEnumerator.js: the chord namer\<close>

definition NAMES_SHARPS :: "string list" where
  "NAMES_SHARPS = [''C'', ''C#'', ''D'', ''D#'', ''E'', ''F'', ''F#'', ''G'', ''G#'', ''A'', ''A#'', ''B'']"

definition NAMES_FLATS :: "string list" where
  "NAMES_FLATS = [''C'', ''Db'', ''D'', ''Eb'', ''E'', ''F'', ''Gb'', ''G'', ''Ab'', ''A'', ''Bb'', ''B'']"

text \<open>
  \<open>GetParameter(name)\<close> of the host is the argument \<open>gp\<close>: the current value of the
  control with that name.
\<close>

text \<open>\<open>ceDefaultParams\<close> holds the \<open>defaultValue\<close> of each entry of \<open>PluginParameters\<close>.\<close>

definition ceDefaultParams :: "string \<Rightarrow> int" where
  "ceDefaultParams nm = (if nm = ''Include Notes List'' then 1 else 0)"

definition pcName :: "(string \<Rightarrow> int) \<Rightarrow> int \<Rightarrow> string" where
  "pcName gp pc0 =
     (let pc = js_rem (js_rem pc0 12 + 12) 12
      in if gp ''Pitch Class Style'' = 0 then NAMES_SHARPS ! nat pc else NAMES_FLATS ! nat pc)"

definition uniqSorted :: "int list \<Rightarrow> int list" where
  \<comment> \<open>The keys of the object \<open>m\<close> are the distinct elements; they are then sorted numerically.\<close>
  "uniqSorted arr = sort (remdups arr)"

definition pcsFromPitches :: "int list \<Rightarrow> int list" where
  "pcsFromPitches pitches = sort (remdups (map (\<lambda>p. js_rem p 12) pitches))"

definition intervalsFromRootPC :: "int list \<Rightarrow> int \<Rightarrow> int list" where
  "intervalsFromRootPC pcs rootPC = uniqSorted (map (\<lambda>pc. js_rem (pc - rootPC + 12) 12) pcs)"

fun has :: "int list \<Rightarrow> int \<Rightarrow> bool" where
  "has [] v = False"
| "has (x # xs) v = (if x = v then True else has xs v)"

record chord_info =
  name :: string
  bass :: int
  pcs :: "int list"
  pitches :: "int list"
  intervals :: "int list"

datatype chord_result = NoNotes | Chord chord_info

definition triadQuality :: "int list \<Rightarrow> string" where
  "triadQuality ints =
     (let has3 = has ints 3; has4 = has ints 4; has5 = has ints 5; has2 = has ints 2;
          has6 = has ints 6; has7 = has ints 7; has8 = has ints 8
      in if has4 \<and> has7 then ''''
         else if has3 \<and> has7 then ''m''
         else if has3 \<and> has6 then ''dim''
         else if has4 \<and> has8 then ''aug''
         else if has2 \<and> has7 then ''sus2''
         else if has5 \<and> has7 then ''sus4''
         else '''')"

definition suffixSevenths :: "int list \<Rightarrow> string" where
  "suffixSevenths ints =
     (if has ints 10 then ''7'' else if has ints 11 then ''maj7'' else '''')"

definition suffixSix :: "int list \<Rightarrow> string \<Rightarrow> string" where
  "suffixSix ints suffix =
     (if has ints 9 \<and> indexOf suffix ''7'' = - 1 then
        (let s1 = suffix @ (if suffix \<noteq> [] then '''' else ''6'')
         in if s1 = [] then ''6'' else if s1 = ''maj7'' then s1 @ ''(add6)'' else s1)
      else suffix)"

definition suffixNine :: "int list \<Rightarrow> string \<Rightarrow> string \<Rightarrow> string" where
  "suffixNine ints quality suffix =
     (if has ints 2 then
        (if suffix = '''' \<and> (quality = '''' \<or> quality = ''m'' \<or> quality = ''dim''
              \<or> quality = ''aug'' \<or> indexOf quality ''sus'' = 0) then
           (let s1 = suffix @ (if suffix \<noteq> [] then '''' else '''')
            in s1 @ (if s1 \<noteq> [] \<and> s1 \<noteq> ''6'' then ''(add9)'' else ''add9''))
         else suffix @ ''9'')
      else suffix)"

definition suffixEleven :: "int list \<Rightarrow> string \<Rightarrow> string \<Rightarrow> string" where
  "suffixEleven ints quality suffix =
     (if has ints 5 then
        (if quality \<noteq> ''sus4'' then suffix @ (if suffix \<noteq> [] then '''' else '''') @ ''add11''
         else suffix)
      else suffix)"

definition suffixThirteen :: "int list \<Rightarrow> string \<Rightarrow> string" where
  "suffixThirteen ints suffix =
     (if has ints 9 then (if has ints 10 \<or> has ints 11 then suffix @ ''13'' else suffix)
      else suffix)"

definition suffixAlterations :: "int list \<Rightarrow> string \<Rightarrow> string \<Rightarrow> string" where
  "suffixAlterations ints quality suffix =
     (let s1 = (if has ints 6 \<and> quality \<noteq> ''dim'' then suffix @ ''b5'' else suffix);
          s2 = (if has ints 8 \<and> quality \<noteq> ''aug'' then s1 @ ''#5'' else s1);
          s3 = (if has ints 1 then s2 @ ''b9'' else s2);
          s4 = (if has ints 3 \<and> quality = '''' then s3 @ ''#9'' else s3)
      in s4)"

definition chordSuffix :: "int list \<Rightarrow> string \<Rightarrow> string" where
  \<comment> \<open>The suffix as it stands after the statements of lines 122 to 163, in their order.\<close>
  "chordSuffix ints quality =
     suffixAlterations ints quality
       (suffixThirteen ints
         (suffixEleven ints quality
           (suffixNine ints quality
             (suffixSix ints (suffixSevenths ints)))))"

definition fallbackTokens :: "int list \<Rightarrow> string list" where
  "fallbackTokens ints = map showInt (filter (\<lambda>i. i \<noteq> 0) ints)"

definition chordNameFromLowestRoot :: "(string \<Rightarrow> int) \<Rightarrow> int list \<Rightarrow> chord_result" where
  "chordNameFromLowestRoot gp pitches0 =
     (if pitches0 = [] then NoNotes
      else
        (let pitches = uniqSorted pitches0;
             bass = hd pitches;
             rootPC = js_rem bass 12;
             pcs = pcsFromPitches pitches;
             ints = intervalsFromRootPC pcs rootPC;
             quality = triadQuality ints;
             suffix = chordSuffix ints quality;
             name = pcName gp rootPC @ quality @ suffix;
             meaningful = (quality \<noteq> '''' \<or> suffix \<noteq> '''' \<or> length pcs = 1);
             name = (if \<not> meaningful
                     then pcName gp rootPC @ '' ('' @ join '','' (fallbackTokens ints) @ '')''
                     else name)
         in Chord \<lparr> name = name, bass = bass, pcs = pcs, pitches = pitches, intervals = ints \<rparr>))"

section \<open>ChordEnumerator.js: measure accumulation\<close>

datatype event_kind = NoteOn | NoteOff | Other

text \<open>
  A MIDI event as the host delivers it. \<open>beatPos\<close> is \<open>None\<close> when the event carries no
  finite beat position (\<open>Number.isFinite(event.beatPos)\<close> is false). The number type of
  pitch and velocity is \<open>int\<close> in the chord logger and \<open>real\<close> in the tail generator,
  which assigns computed values to both.
\<close>

record 'n event =
  kind :: event_kind
  pitch :: 'n
  velocity :: 'n
  channel :: int
  beatPos :: "real option"

text \<open>What a handler hands to the host: \<open>event.send()\<close> and \<open>event.sendAtBeat(beat)\<close>.\<close>

datatype 'n effect = Send "'n event" | SendAtBeat real "'n event"

text \<open>The snapshot returned by \<open>GetTimingInfo()\<close>.\<close>

record timing_info =
  playing :: bool
  blockStartBeat :: real
  meterNumerator :: int
  meterDenominator :: int

record ce_state =
  currentBar :: "int option"
  barPitches :: "int list"
  lastPlayed :: bool

definition ce_init :: ce_state where
  "ce_init = \<lparr> currentBar = None, barPitches = [], lastPlayed = False \<rparr>"

definition flushBar :: "(string \<Rightarrow> int) \<Rightarrow> int list \<Rightarrow> int \<Rightarrow> string list" where
  \<comment> \<open>The lines passed to \<open>Trace\<close> by one call \<open>flushBar(barNumber)\<close>, given \<open>barPitches\<close>.
      The namer returns \<open>NoNotes\<close> only for an empty list, which is handled before the call.\<close>
  "flushBar gp bp barNumber =
     (let logEmpty = (gp ''Log Empty Bars'' = 1)
      in if bp = [] then
           (if logEmpty then [''Bar '' @ showInt barNumber @ '': (no notes)''] else [])
         else
           (case chordNameFromLowestRoot gp bp of
              NoNotes \<Rightarrow> []
            | Chord info \<Rightarrow>
                (let pcsNames = join ''-'' (map (pcName gp) (pcs info));
                     msg = ''Bar '' @ showInt barNumber @ '': '' @ name info
                           @ ''  | bass='' @ showInt (bass info)
                           @ ''  | PCs='' @ pcsNames;
                     msg = (if gp ''Include Notes List'' = 1
                            then msg @ ''  | notes='' @ join '','' (map showInt (pitches info))
                            else msg)
                 in [msg, ''          semitones='' @ join '','' (map showInt (intervals info))])))"

definition CE_HandleMIDI :: "ce_state \<Rightarrow> int event \<Rightarrow> ce_state \<times> int effect list" where
  "CE_HandleMIDI s ev =
     (let s1 = (if kind ev = NoteOn then s\<lparr> barPitches := barPitches s @ [pitch ev] \<rparr> else s)
      in (s1, [Send ev]))"

definition orFour :: "int \<Rightarrow> int" where
  \<comment> \<open>\<open>x || 4\<close> on an integer: 0 is the only falsy one.\<close>
  "orFour x = (if x = 0 then 4 else x)"

definition beatsPerBar :: "timing_info \<Rightarrow> real" where
  "beatsPerBar t =
     (let num = orFour (meterNumerator t);
          den = orFour (meterDenominator t)
      in real_of_int num * (4 / real_of_int den))"

definition barIndexOf :: "timing_info \<Rightarrow> int" where
  \<comment> \<open>The quotient is taken exactly. The theorems below evaluate the bar index in 4/4,
      3/0 and 4/-4 at integer beats only, where the bar length (4, 3, -4) and the quotient
      are dyadic numbers that doubles compute without rounding.\<close>
  "barIndexOf t = \<lfloor>blockStartBeat t / beatsPerBar t\<rfloor>"

text \<open>
  The loop \<open>while (currentBar < barIndex)\<close>. It returns the final \<open>currentBar\<close>, the final
  \<open>barPitches\<close> and, in call order, each call of \<open>flushBar\<close> as the pair of its argument
  and the lines it traced.
\<close>

function flushLoop ::
  "(string \<Rightarrow> int) \<Rightarrow> int \<Rightarrow> int list \<Rightarrow> int \<Rightarrow> int \<times> int list \<times> (int \<times> string list) list" where
  "flushLoop gp cur bp barIndex =
     (if cur < barIndex then
        (let traced = flushBar gp bp (cur + 1);
             (cur', bp', calls) = flushLoop gp (cur + 1) [] barIndex
         in (cur', bp', (cur + 1, traced) # calls))
      else (cur, bp, []))"
  by pat_completeness auto
termination
  by (relation "measure (\<lambda>(gp, cur, bp, barIndex). nat (barIndex - cur))") auto

declare flushLoop.simps [simp del]

definition CE_ProcessMIDI ::
  "(string \<Rightarrow> int) \<Rightarrow> ce_state \<Rightarrow> timing_info \<Rightarrow> ce_state \<times> (int \<times> string list) list" where
  "CE_ProcessMIDI gp s0 t =
     (let s1 = (if \<not> playing t \<and> lastPlayed s0
                then s0\<lparr> currentBar := None, barPitches := [] \<rparr> else s0);
          s2 = s1\<lparr> lastPlayed := playing t \<rparr>
      in if \<not> playing t then (s2, [])
         else
           (let barIndex = barIndexOf t;
                cur = (case currentBar s2 of None \<Rightarrow> barIndex | Some c \<Rightarrow> c)
            in if barIndex \<noteq> cur then
                 (let (cur', bp', calls) = flushLoop gp cur (barPitches s2) barIndex
                  in (s2\<lparr> currentBar := Some cur', barPitches := bp' \<rparr>, calls))
               else (s2\<lparr> currentBar := Some cur \<rparr>, [])))"

text \<open>The events the host delivers between two ticks, handled in their order.\<close>

fun CE_handleAll :: "ce_state \<Rightarrow> int event list \<Rightarrow> ce_state" where
  "CE_handleAll s [] = s"
| "CE_handleAll s (ev # evs) = CE_handleAll (fst (CE_HandleMIDI s ev)) evs"

text \<open>A tick of a playing transport at beat \<open>b\<close> in 4/4.\<close>

definition tick44 :: "real \<Rightarrow> timing_info" where
  "tick44 b = \<lparr> playing = True, blockStartBeat = b, meterNumerator = 4, meterDenominator = 4 \<rparr>"

section \<open>Tremolo.js: the note repeater tail\<close>

definition SYNC_DURATIONS :: "(string \<times> real) list" where
  "SYNC_DURATIONS =
     [(''1/64'', 0.0625), (''1/32t'', 0.0833333333), (''1/32'', 0.125),
      (''1/16t'', 0.1666666667), (''1/16'', 0.25), (''1/16*'', 0.375),
      (''1/8t'', 0.3333333333), (''1/8'', 0.5), (''1/8*'', 0.75),
      (''1/4t'', 0.6666666667), (''1/4'', 1), (''1/4*'', 1.5),
      (''1/2t'', 1.3333333333), (''1/2'', 2), (''1/2*'', 3),
      (''1t'', 2.6666666667), (''1'', 4), (''1*'', 6)]"

text \<open>\<open>PARAM_INDEX\<close>: the index of each control.\<close>

abbreviation (input) P_NUMERATOR :: nat where "P_NUMERATOR \<equiv> 0"
abbreviation (input) P_DENOMINATOR :: nat where "P_DENOMINATOR \<equiv> 1"
abbreviation (input) P_QUANTITY :: nat where "P_QUANTITY \<equiv> 2"
abbreviation (input) P_DECAY :: nat where "P_DECAY \<equiv> 3"
abbreviation (input) P_GATE :: nat where "P_GATE \<equiv> 4"
abbreviation (input) P_PITCH_DECAY :: nat where "P_PITCH_DECAY \<equiv> 5"
abbreviation (input) P_PITCH_DECAY_MULTIPLIER :: nat where "P_PITCH_DECAY_MULTIPLIER \<equiv> 6"
abbreviation (input) P_HIGHPASS_HZ :: nat where "P_HIGHPASS_HZ \<equiv> 7"
abbreviation (input) P_LOWPASS_HZ :: nat where "P_LOWPASS_HZ \<equiv> 8"
abbreviation (input) P_DELAY :: nat where "P_DELAY \<equiv> 9"
abbreviation (input) P_ATTACK :: nat where "P_ATTACK \<equiv> 10"
abbreviation (input) P_HOLD :: nat where "P_HOLD \<equiv> 11"
abbreviation (input) P_ENV_DECAY :: nat where "P_ENV_DECAY \<equiv> 12"
abbreviation (input) P_SUSTAIN :: nat where "P_SUSTAIN \<equiv> 13"
abbreviation (input) P_RELEASE :: nat where "P_RELEASE \<equiv> 14"
abbreviation (input) P_VOICES :: nat where "P_VOICES \<equiv> 15"

text \<open>
  \<open>param(idx)\<close> is the argument \<open>gp\<close>: the current value of the control with that index.
  \<open>defaultParams\<close> holds the \<open>defaultValue\<close> of each entry of \<open>PluginParameters\<close>.
\<close>

definition defaultParams :: "nat \<Rightarrow> real" where
  "defaultParams idx =
     [1, 12, 2, 1, 0.5, 0, 1, 20, 2000, 0.083, 0, 0, 10, 0.8, 10, 12] ! idx"

text \<open>
  The engine computes with IEEE doubles. What the script reads off as an integer or
  compares with a threshold (the velocity of a repeat, its pitch, its frequency against
  the pass band) can change with the rounding of a single operation, so every operation
  on the way to these values is the engine's own: the argument \<open>ar\<close> gives the sum,
  difference, product and quotient of two doubles and \<open>Math.pow\<close>, and what is proved
  holds for every such arithmetic. The beat positions handed to the host, and the guard
  on the spacing, are kept as exact reals. \<open>exactArith\<close> is the arithmetic without
  rounding (with \<open>Math.pow\<close> on a base that is not negative).
\<close>

record arith =
  fadd :: "real \<Rightarrow> real \<Rightarrow> real"
  fsub :: "real \<Rightarrow> real \<Rightarrow> real"
  fmul :: "real \<Rightarrow> real \<Rightarrow> real"
  fdiv :: "real \<Rightarrow> real \<Rightarrow> real"
  fpow :: "real \<Rightarrow> real \<Rightarrow> real"

definition exactPow :: "real \<Rightarrow> real \<Rightarrow> real" where
  "exactPow x y = (if y = 0 then 1 else x powr y)"

definition exactArith :: arith where
  "exactArith = \<lparr> fadd = (+), fsub = (-), fmul = (*), fdiv = (/), fpow = exactPow \<rparr>"

definition js_round :: "real \<Rightarrow> int" where
  \<comment> \<open>\<open>Math.round\<close>: the nearest integer, a tie going up; exact on the double it is given.\<close>
  "js_round x = \<lfloor>x + 1 / 2\<rfloor>"

definition clamp :: "'a::linorder \<Rightarrow> 'a \<Rightarrow> 'a \<Rightarrow> 'a" where
  "clamp val lo hi = (if val < lo then lo else if val > hi then hi else val)"

definition envDurationFromMenu :: "(nat \<Rightarrow> real) \<Rightarrow> nat \<Rightarrow> real" where
  "envDurationFromMenu gp idx =
     (let selection = js_round (gp idx);
          safeIdx = clamp selection 0 (int (length SYNC_DURATIONS) - 1)
      in snd (SYNC_DURATIONS ! nat safeIdx))"

definition midiPitchToHz :: "arith \<Rightarrow> real \<Rightarrow> real" where
  "midiPitchToHz ar p = fmul ar 440 (fpow ar 2 (fdiv ar (fsub ar p 69) 12))"

definition envelopeAtTime ::
  "arith \<Rightarrow> real \<Rightarrow> real \<Rightarrow> real \<Rightarrow> real \<Rightarrow> real \<Rightarrow> real \<Rightarrow> real \<Rightarrow> real" where
  "envelopeAtTime ar t a h d s r tot =
     (let attackEnd = a;
          holdEnd = fadd ar attackEnd h;
          decayEnd = fadd ar holdEnd d;
          releaseStart = max decayEnd (fsub ar tot r)
      in if t \<le> 0 then (if a > 0 then 0 else 1)
         else if t < attackEnd \<and> a > 0 then fdiv ar t a
         else if t < holdEnd then 1
         else if t < decayEnd \<and> d > 0 then
           (let k = fdiv ar (fsub ar t holdEnd) d in fadd ar 1 (fmul ar k (fsub ar s 1)))
         else if t < releaseStart then s
         else (let relTime = fsub ar t releaseStart
               in if r \<le> 0 then 0
                  else (let kRel = fsub ar 1 (min 1 (fdiv ar relTime r)) in fmul ar s kRel)))"

text \<open>The locals of \<open>createTailRepeats\<close> that depend on the controls only.\<close>

definition quantityOf :: "(nat \<Rightarrow> real) \<Rightarrow> int" where
  "quantityOf gp = max 1 (js_round (gp P_QUANTITY))"

definition voicesOf :: "(nat \<Rightarrow> real) \<Rightarrow> int" where
  "voicesOf gp = max 1 (js_round (gp P_VOICES))"

definition transposeStepOf :: "arith \<Rightarrow> (nat \<Rightarrow> real) \<Rightarrow> real" where
  "transposeStepOf ar gp = fmul ar (gp P_PITCH_DECAY) (gp P_PITCH_DECAY_MULTIPLIER)"

definition hpHzOf :: "(nat \<Rightarrow> real) \<Rightarrow> real" where
  \<comment> \<open>The lower band edge after the swap of lines 309 to 311.\<close>
  "hpHzOf gp = (if gp P_LOWPASS_HZ < gp P_HIGHPASS_HZ then gp P_LOWPASS_HZ else gp P_HIGHPASS_HZ)"

definition lpHzOf :: "(nat \<Rightarrow> real) \<Rightarrow> real" where
  "lpHzOf gp = (if gp P_LOWPASS_HZ < gp P_HIGHPASS_HZ then gp P_HIGHPASS_HZ else gp P_LOWPASS_HZ)"

definition spacingOf :: "(nat \<Rightarrow> real) \<Rightarrow> real" where
  \<comment> \<open>\<open>spacing\<close> as an exact real: in the guard and in the beat positions.\<close>
  "spacingOf gp = (if gp P_DENOMINATOR \<noteq> 0 then gp P_NUMERATOR / gp P_DENOMINATOR else 0)"

definition spacingAr :: "arith \<Rightarrow> (nat \<Rightarrow> real) \<Rightarrow> real" where
  \<comment> \<open>\<open>spacing\<close> as the engine computes it: on the way to the envelope and the velocity.\<close>
  "spacingAr ar gp =
     (if gp P_DENOMINATOR \<noteq> 0 then fdiv ar (gp P_NUMERATOR) (gp P_DENOMINATOR) else 0)"

definition repeatsOf :: "(nat \<Rightarrow> real) \<Rightarrow> int" where
  "repeatsOf gp = min (quantityOf gp) (voicesOf gp)"

definition gateBeatsOf :: "(nat \<Rightarrow> real) \<Rightarrow> real" where
  "gateBeatsOf gp =
     (let gateBeats = spacingOf gp * gp P_GATE
      in if gateBeats \<le> 0 then spacingOf gp * 0.5 else gateBeats)"

definition totalSpanOf :: "arith \<Rightarrow> (nat \<Rightarrow> real) \<Rightarrow> real" where
  "totalSpanOf ar gp =
     fadd ar (fmul ar (spacingAr ar gp) (real_of_int (max 0 (repeatsOf gp - 1))))
       (envDurationFromMenu gp P_RELEASE)"

definition adsrEnvOf :: "arith \<Rightarrow> (nat \<Rightarrow> real) \<Rightarrow> nat \<Rightarrow> real" where
  \<comment> \<open>Line 333: \<open>envelopeAtTime(i * spacing, envA, envH, envD, envS, envR, totalSpan)\<close>.\<close>
  "adsrEnvOf ar gp i =
     envelopeAtTime ar (fmul ar (real i) (spacingAr ar gp))
       (envDurationFromMenu gp P_ATTACK) (envDurationFromMenu gp P_HOLD)
       (envDurationFromMenu gp P_ENV_DECAY) (gp P_SUSTAIN)
       (envDurationFromMenu gp P_RELEASE) (totalSpanOf ar gp)"

definition tailVelocity :: "arith \<Rightarrow> (nat \<Rightarrow> real) \<Rightarrow> real \<Rightarrow> nat \<Rightarrow> int" where
  \<comment> \<open>Lines 332 to 336: the velocity given to repeat \<open>i\<close>; the product is taken from the
      left, as \<open>baseVel * tailEnv * adsrEnv\<close> is.\<close>
  "tailVelocity ar gp baseVel i =
     (let velDecay = gp P_DECAY;
          tailEnv = (if velDecay > 0 then fpow ar velDecay (real i) else 1);
          adsrEnv = adsrEnvOf ar gp i;
          vel = js_round (fmul ar (fmul ar baseVel tailEnv) adsrEnv);
          vel = (if vel < 1 then 1 else vel);
          vel = (if vel > 127 then 127 else vel)
      in vel)"

definition tailNoteOn :: "arith \<Rightarrow> (nat \<Rightarrow> real) \<Rightarrow> real event \<Rightarrow> nat \<Rightarrow> real event" where
  \<comment> \<open>Lines 331 to 340: the clone \<open>on\<close> of repeat \<open>i\<close> with its velocity and pitch set.\<close>
  "tailNoteOn ar gp srcNoteOn i =
     (let on0 = srcNoteOn\<lparr> kind := NoteOn \<rparr>;
          on1 = on0\<lparr> velocity := real_of_int (tailVelocity ar gp (velocity srcNoteOn) i) \<rparr>;
          on2 = on1\<lparr> pitch :=
                  clamp (fadd ar (pitch on1) (fmul ar (transposeStepOf ar gp) (real i))) 0 127 \<rparr>
      in on2)"

definition tailRepeat ::
  "arith \<Rightarrow> (nat \<Rightarrow> real) \<Rightarrow> real event \<Rightarrow> real \<Rightarrow> nat \<Rightarrow> real effect list" where
  \<comment> \<open>One pass of the body of the \<open>for\<close> loop: what it sends for index \<open>i\<close>.\<close>
  "tailRepeat ar gp srcNoteOn releaseBeat i =
     (let beatTime = releaseBeat + gp P_DELAY + spacingOf gp * real i;
          on2 = tailNoteOn ar gp srcNoteOn i;
          hz = midiPitchToHz ar (pitch on2)
      in if hz < hpHzOf gp \<or> hz > lpHzOf gp then []
         else [SendAtBeat beatTime on2,
               SendAtBeat (beatTime + gateBeatsOf gp) (on2\<lparr> kind := NoteOff \<rparr>)])"

function tailLoop ::
  "arith \<Rightarrow> (nat \<Rightarrow> real) \<Rightarrow> real event \<Rightarrow> real \<Rightarrow> nat \<Rightarrow> int \<Rightarrow> real effect list" where
  "tailLoop ar gp srcNoteOn releaseBeat i repeats =
     (if int i < repeats
      then tailRepeat ar gp srcNoteOn releaseBeat i
           @ tailLoop ar gp srcNoteOn releaseBeat (Suc i) repeats
      else [])"
  by pat_completeness auto
termination
  by (relation "measure (\<lambda>(ar, gp, src, rb, i, repeats). nat repeats - i)") auto

declare tailLoop.simps [simp del]

definition createTailRepeats ::
  "arith \<Rightarrow> (nat \<Rightarrow> real) \<Rightarrow> real event \<Rightarrow> real \<Rightarrow> real \<Rightarrow> real effect list" where
  "createTailRepeats ar gp srcNoteOn lengthBeats releaseBeat =
     (if spacingOf gp \<le> 0 then []
      else tailLoop ar gp srcNoteOn releaseBeat 0 (repeatsOf gp))"

text \<open>
  \<open>activeNotes\<close> is keyed by \<open>noteKey\<close>, the string \<open>pitch + ":" + channel\<close>; two events
  have the same key exactly when they agree on pitch and channel, so the key is the pair.
\<close>

record note_slot =
  noteOn :: "real event"
  startBeat :: real

record tr_state =
  activeNotes :: "(real \<times> int) \<rightharpoonup> note_slot"
  lastBeatPos :: real

definition tr_init :: tr_state where
  "tr_init = \<lparr> activeNotes = Map.empty, lastBeatPos = - 1 \<rparr>"

definition noteKey :: "real event \<Rightarrow> real \<times> int" where
  "noteKey ev = (pitch ev, channel ev)"

definition TR_ProcessMIDI :: "tr_state \<Rightarrow> timing_info option \<Rightarrow> tr_state" where
  \<comment> \<open>\<open>blockStartBeat\<close> of a snapshot is a number, so the \<open>typeof\<close> test passes whenever
      there is a snapshot.\<close>
  "TR_ProcessMIDI st info =
     (case info of None \<Rightarrow> st | Some t \<Rightarrow> st\<lparr> lastBeatPos := blockStartBeat t \<rparr>)"

definition TR_HandleMIDI ::
  "arith \<Rightarrow> (nat \<Rightarrow> real) \<Rightarrow> tr_state \<Rightarrow> real event \<Rightarrow> tr_state \<times> real effect list" where
  "TR_HandleMIDI ar gp st ev =
     (if kind ev = NoteOn then
        (let key = noteKey ev;
             startBeat = (case beatPos ev of Some b \<Rightarrow> b | None \<Rightarrow> lastBeatPos st)
         in (st\<lparr> activeNotes := (activeNotes st)(key \<mapsto> \<lparr> noteOn = ev, startBeat = startBeat \<rparr>) \<rparr>,
             [Send ev]))
      else if kind ev = NoteOff then
        (let offKey = noteKey ev
         in case activeNotes st offKey of
              Some info \<Rightarrow>
                (let startBeat = startBeat info;
                     endBeat = (case beatPos ev of Some b \<Rightarrow> b | None \<Rightarrow> lastBeatPos st);
                     lengthBeats = max 0 (endBeat - startBeat)
                 in (st\<lparr> activeNotes := (activeNotes st)(offKey := None) \<rparr>,
                     createTailRepeats ar gp (noteOn info) lengthBeats endBeat @ [Send ev]))
            | None \<Rightarrow> (st, [Send ev]))
      else (st, [Send ev]))"

text \<open>The note-on events among the scheduled ones, and the plain sends.\<close>

fun isScheduledNoteOn :: "real effect \<Rightarrow> bool" where
  "isScheduledNoteOn (SendAtBeat b ev) = (kind ev = NoteOn)"
| "isScheduledNoteOn (Send ev) = False"

fun isSend :: "'n effect \<Rightarrow> bool" where
  "isSend (Send ev) = True"
| "isSend (SendAtBeat b ev) = False"

text \<open>
  The velocity of repeat \<open>i\<close> as the specification words it:
  \<open>round(baseVelocity * velocityDecay^i * envelopeAmplitude(i*spacing, ...))\<close> clamped to
  \<open>[1,127]\<close>, in the arithmetic of the engine.
\<close>

definition specVelocity :: "arith \<Rightarrow> (nat \<Rightarrow> real) \<Rightarrow> real \<Rightarrow> nat \<Rightarrow> int" where
  "specVelocity ar gp baseVel i =
     clamp (js_round (fmul ar (fmul ar baseVel (fpow ar (gp P_DECAY) (real i))) (adsrEnvOf ar gp i)))
       1 127"

text \<open>
  A tail event of the specification: a note with its on and off beats. The scheduler
  hands it to the host as a note-on sent at \<open>onBeat\<close> and a note-off at \<open>offBeat\<close>.
\<close>

record tail_event =
  onBeat :: real
  offBeat :: real
  tailNote :: "real event"

definition tailEventEffects :: "tail_event \<Rightarrow> real effect list" where
  "tailEventEffects e =
     [SendAtBeat (onBeat e) ((tailNote e)\<lparr> kind := NoteOn \<rparr>),
      SendAtBeat (offBeat e) ((tailNote e)\<lparr> kind := NoteOff \<rparr>)]"

text \<open>The default controls with Denominator, respectively Tail Decay, set to 0.\<close>

definition zeroDenominatorParams :: "nat \<Rightarrow> real" where
  "zeroDenominatorParams = defaultParams(P_DENOMINATOR := 0)"

definition zeroDecayParams :: "nat \<Rightarrow> real" where
  "zeroDecayParams = defaultParams(P_DECAY := 0)"

text \<open>A note-on and a note-off of pitch 69 on channel 1, used in the examples.\<close>

definition a4On :: "real event" where
  "a4On = \<lparr> kind = NoteOn, pitch = 69, velocity = 100, channel = 1, beatPos = Some 0 \<rparr>"

definition a4Off :: "real event" where
  "a4Off = \<lparr> kind = NoteOff, pitch = 69, velocity = 0, channel = 1, beatPos = Some 4 \<rparr>"

text \<open>The tail generator holding that note: after its note-on, from the initial state.\<close>

definition heldA4 :: tr_state where
  "heldA4 = fst (TR_HandleMIDI exactArith defaultParams tr_init a4On)"

text \<open>A tick of a stopped transport at beat \<open>b\<close> in 4/4.\<close>

definition stopped44 :: "real \<Rightarrow> timing_info" where
  "stopped44 b = \<lparr> playing = False, blockStartBeat = b, meterNumerator = 4, meterDenominator = 4 \<rparr>"

section \<open>Properties of the chord namer\<close>

text \<open>
  C1. On the pitch list [60,64,67] the chord namer returns bass 60, the pitch classes
  0, 4, 7 (named C, E, G in either naming style) and the interval set [0,4,7]. Its label
  is not the bare root name: a major triad leaves quality and suffix both empty, so the
  fallback replaces the label by the root name followed by the interval list, "C (4,7)".
\<close>

theorem C1_c_major_triad_label:
  "chordNameFromLowestRoot gp [60, 64, 67] =
     Chord \<lparr> name = ''C (4,7)'', bass = 60, pcs = [0, 4, 7], pitches = [60, 64, 67],
             intervals = [0, 4, 7] \<rparr>
   \<and> map (pcName gp) [0, 4, 7] = [''C'', ''E'', ''G'']"
  by (simp add: chordNameFromLowestRoot_def uniqSorted_def pcsFromPitches_def
      intervalsFromRootPC_def js_rem_def triadQuality_def chordSuffix_def suffixSevenths_def
      suffixSix_def suffixNine_def suffixEleven_def suffixThirteen_def suffixAlterations_def
      pcName_def NAMES_SHARPS_def NAMES_FLATS_def indexOf_def Let_def fallbackTokens_def
      showInt_def digitChar_def)

theorem C1_c_major_triad_label_witness:
  "chordNameFromLowestRoot ceDefaultParams [60, 64, 67] =
     Chord \<lparr> name = ''C (4,7)'', bass = 60, pcs = [0, 4, 7], pitches = [60, 64, 67],
             intervals = [0, 4, 7] \<rparr>"
  by (rule conjunct1 [OF C1_c_major_triad_label [of ceDefaultParams]])

lemma js_rem_nonneg: "0 \<le> a \<Longrightarrow> js_rem a 12 = a mod 12"
  by (simp add: js_rem_def sgn_if)

lemma js_rem_range: "- 12 < js_rem a 12 \<and> js_rem a 12 < 12"
  by (auto simp: js_rem_def sgn_if)

lemma pc_norm_range: "0 \<le> js_rem (js_rem a 12 + 12) 12 \<and> js_rem (js_rem a 12 + 12) 12 < 12"
  using js_rem_range[of a] by (simp add: js_rem_nonneg)

lemma names_nonempty: "i < 12 \<Longrightarrow> NAMES_SHARPS ! i \<noteq> [] \<and> NAMES_FLATS ! i \<noteq> []"
  by (auto simp: NAMES_SHARPS_def NAMES_FLATS_def less_Suc_eq numeral_eq_Suc)

lemma pcName_nonempty: "pcName gp pc \<noteq> []"
proof -
  let ?k = "js_rem (js_rem pc 12 + 12) 12"
  have "nat ?k < 12" using pc_norm_range[of pc] by linarith
  then show ?thesis using names_nonempty[of "nat ?k"] by (simp add: pcName_def Let_def)
qed

lemma hd_sort_Min: "xs \<noteq> [] \<Longrightarrow> hd (sort (remdups xs)) = Min (set xs)"
proof -
  assume ne: "xs \<noteq> []"
  let ?ys = "sort (remdups xs)"
  have s: "sorted ?ys" "set ?ys = set xs" by simp_all
  have ne2: "?ys \<noteq> []" using ne s(2) by (metis set_empty)
  then obtain y ys where eq: "?ys = y # ys" by (cases ?ys) auto
  have "\<forall>z\<in>set xs. y \<le> z"
    using s eq by (metis insert_iff list.simps(15) order_refl sorted_simps(2))
  moreover have "y \<in> set xs" using s(2) eq by (metis list.set_intros(1))
  ultimately have "Min (set xs) = y" by (simp add: Min_eqI)
  then show ?thesis using eq by simp
qed

lemma set_pcsFromPitches:
  assumes "\<forall>p\<in>set ps. 0 \<le> p"
  shows "set (pcsFromPitches ps) = (\<lambda>p. p mod 12) ` set ps"
proof -
  have "map (\<lambda>p. js_rem p 12) ps = map (\<lambda>p. p mod 12) ps"
    using assms by (simp add: js_rem_nonneg)
  then show ?thesis by (simp add: pcsFromPitches_def)
qed

lemma interval_mod:
  "0 \<le> p \<Longrightarrow> 0 \<le> m \<Longrightarrow> js_rem (p mod 12 - m mod 12 + 12) 12 = (p - m) mod 12"
proof -
  assume "0 \<le> p" "0 \<le> m"
  have "0 \<le> p mod 12 - m mod 12 + 12"
    using pos_mod_bound[of 12 m] pos_mod_sign[of 12 p] by linarith
  then have "js_rem (p mod 12 - m mod 12 + 12) 12 = (p mod 12 - m mod 12 + 12) mod 12"
    by (rule js_rem_nonneg)
  also have "\<dots> = (p - m) mod 12" by (simp add: mod_diff_eq)
  finally show ?thesis .
qed

lemma set_intervalsFromRootPC:
  assumes "\<forall>p\<in>set ps. 0 \<le> p" and "0 \<le> m"
  shows "set (intervalsFromRootPC (pcsFromPitches ps) (m mod 12)) = (\<lambda>p. (p - m) mod 12) ` set ps"
proof -
  have "set (intervalsFromRootPC (pcsFromPitches ps) (m mod 12))
        = (\<lambda>pc. js_rem (pc - m mod 12 + 12) 12) ` set (pcsFromPitches ps)"
    by (simp add: intervalsFromRootPC_def uniqSorted_def)
  also have "\<dots> = (\<lambda>p. js_rem (p mod 12 - m mod 12 + 12) 12) ` set ps"
    using assms(1) by (simp add: set_pcsFromPitches image_image)
  also have "\<dots> = (\<lambda>p. (p - m) mod 12) ` set ps"
    using assms by (intro image_cong refl) (simp add: interval_mod)
  finally show ?thesis .
qed

lemma intervals_strictly_ascending: "sorted_wrt (<) (intervalsFromRootPC ps r)"
  by (simp add: intervalsFromRootPC_def uniqSorted_def strict_sorted_iff)

lemma chord_name_shape:
  "ps \<noteq> [] \<Longrightarrow> chordNameFromLowestRoot gp ps = Chord info \<Longrightarrow>
     \<exists>rest. name info = pcName gp (js_rem (hd (uniqSorted ps)) 12) @ rest"
  by (auto simp: chordNameFromLowestRoot_def Let_def)

text \<open>
  C7. For every non-empty list of MIDI pitches (integers from 0 to 127) the chord namer
  returns a result whose label is not empty; the bass is the least pitch and the root
  pitch class, the bass reduced by \<open>% 12\<close>, is the least pitch modulo 12, and the label
  starts with the name of that pitch class; the interval set contains 0, is strictly
  ascending (so its values are unique) and lies in [0,11]: it is the set of the
  differences to the least pitch modulo 12.
\<close>

theorem C7_chord_namer_invariants:
  assumes ne: "ps \<noteq> []" and midi: "\<forall>p\<in>set ps. 0 \<le> p \<and> p \<le> 127"
  shows "\<exists>info. chordNameFromLowestRoot gp ps = Chord info
           \<and> name info \<noteq> []
           \<and> bass info = Min (set ps)
           \<and> js_rem (bass info) 12 = Min (set ps) mod 12
           \<and> (\<exists>rest. name info = pcName gp (Min (set ps) mod 12) @ rest)
           \<and> 0 \<in> set (intervals info)
           \<and> sorted_wrt (<) (intervals info)
           \<and> (\<forall>d\<in>set (intervals info). 0 \<le> d \<and> d \<le> 11)
           \<and> set (intervals info) = (\<lambda>p. (p - Min (set ps)) mod 12) ` set ps"
proof -
  let ?m = "Min (set ps)"
  have m_in: "?m \<in> set ps" using ne by simp
  then have m0: "0 \<le> ?m" using midi by blast
  have hd_eq: "hd (uniqSorted ps) = ?m" using ne by (simp add: uniqSorted_def hd_sort_Min)
  have root: "js_rem ?m 12 = ?m mod 12" using m0 by (rule js_rem_nonneg)
  obtain info where info: "chordNameFromLowestRoot gp ps = Chord info"
    using ne by (simp add: chordNameFromLowestRoot_def Let_def)
  have b: "bass info = ?m"
    using info ne hd_eq by (auto simp: chordNameFromLowestRoot_def Let_def)
  have pos: "\<forall>p\<in>set (uniqSorted ps). 0 \<le> p" using midi by (simp add: uniqSorted_def)
  have i: "intervals info = intervalsFromRootPC (pcsFromPitches (uniqSorted ps)) (?m mod 12)"
    using info ne hd_eq root by (auto simp: chordNameFromLowestRoot_def Let_def)
  have iset: "set (intervals info) = (\<lambda>p. (p - ?m) mod 12) ` set ps"
    using set_intervalsFromRootPC[OF pos m0] by (simp add: i uniqSorted_def)
  have zero: "0 \<in> set (intervals info)"
    unfolding iset using m_in by force
  have rng: "\<forall>d\<in>set (intervals info). 0 \<le> d \<and> d \<le> 11"
    unfolding iset by auto
  obtain rest where "name info = pcName gp (js_rem (hd (uniqSorted ps)) 12) @ rest"
    using chord_name_shape[OF ne info] by blast
  then have nm: "name info = pcName gp (?m mod 12) @ rest" by (simp add: hd_eq root)
  then have "name info \<noteq> []" by (simp add: pcName_nonempty)
  with info b root nm zero rng iset intervals_strictly_ascending[of _ "?m mod 12"] i
  show ?thesis by auto
qed

theorem C7_chord_namer_invariants_witness:
  "\<exists>info. chordNameFromLowestRoot ceDefaultParams [62, 65, 69] = Chord info
           \<and> name info \<noteq> []
           \<and> bass info = Min (set [62, 65, 69])
           \<and> js_rem (bass info) 12 = Min (set [62, 65, 69]) mod 12
           \<and> (\<exists>rest. name info = pcName ceDefaultParams (Min (set [62, 65, 69]) mod 12) @ rest)
           \<and> 0 \<in> set (intervals info)
           \<and> sorted_wrt (<) (intervals info)
           \<and> (\<forall>d\<in>set (intervals info). 0 \<le> d \<and> d \<le> 11)
           \<and> set (intervals info) = (\<lambda>p. (p - Min (set [62, 65, 69])) mod 12) ` set [62, 65, 69]"
proof -
  have h1: "[62, 65, 69] \<noteq> ([]::int list)" by simp
  have h2: "\<forall>p\<in>set [62, 65, 69::int]. 0 \<le> p \<and> p \<le> 127" by simp
  show ?thesis by (rule C7_chord_namer_invariants[OF h1 h2])
qed

section \<open>Properties of the bar tracker\<close>




lemma flushLoop_calls:
  "flushLoop gp cur bp barIndex =
     (if cur < barIndex
      then (barIndex, [], (cur + 1, flushBar gp bp (cur + 1))
                            # map (\<lambda>n. (n, flushBar gp [] n)) [cur + 2..barIndex])
      else (cur, bp, []))"
proof (induction gp cur bp barIndex rule: flushLoop.induct)
  case (1 gp cur bp barIndex)
  show ?case
  proof (cases "cur < barIndex")
    case False
    then show ?thesis by (subst flushLoop.simps) simp
  next
    case True
    note ih = 1[OF True refl]
    show ?thesis
    proof (cases "cur + 1 < barIndex")
      case True
      then have "[cur + 2..barIndex] = (cur + 2) # [cur + 3..barIndex]"
        by (subst upto_rec1) (simp_all add: add.commute)
      then show ?thesis using \<open>cur < barIndex\<close> True ih 
        by (subst flushLoop.simps) (simp add: Let_def add.commute)
    next
      case False
      then have "[cur + 2..barIndex] = []" by simp
      then show ?thesis using \<open>cur < barIndex\<close> False ih
        by (subst flushLoop.simps) (simp add: Let_def)
    qed
  qed
qed

lemma upto_shift: "(1::int) \<le> k \<Longrightarrow> [b + 1..b + k] = (b + 1) # [b + 2..b + k]"
  by (subst upto_rec1) (simp_all add: add.commute)

lemma flush_from_current:
  assumes "playing t" and "currentBar s = Some b" and "barIndexOf t = b + int K" and "1 \<le> K"
  shows "snd (CE_ProcessMIDI gp s t) =
           (b + 1, flushBar gp (barPitches s) (b + 1))
             # map (\<lambda>n. (n, flushBar gp [] n)) [b + 2..b + int K]
         \<and> map fst (snd (CE_ProcessMIDI gp s t)) = [b + 1..b + int K]
         \<and> length (snd (CE_ProcessMIDI gp s t)) = K
         \<and> currentBar (fst (CE_ProcessMIDI gp s t)) = Some (b + int K)
         \<and> barPitches (fst (CE_ProcessMIDI gp s t)) = []"
proof -
  have lt: "b < b + int K" using assms(4) by simp
  have r: "CE_ProcessMIDI gp s t =
          (s\<lparr> lastPlayed := True, currentBar := Some (b + int K), barPitches := [] \<rparr>,
           (b + 1, flushBar gp (barPitches s) (b + 1))
             # map (\<lambda>n. (n, flushBar gp [] n)) [b + 2..b + int K])"
    using assms(1,2,3) lt by (simp add: CE_ProcessMIDI_def Let_def flushLoop_calls)
  have m: "map fst (map (\<lambda>n. (n, flushBar gp [] n)) [b + 2..b + int K]) = [b + 2..b + int K]"
    by (simp add: comp_def)
  have u: "[b + 1..b + int K] = (b + 1) # [b + 2..b + int K]"
    using assms(4) by (intro upto_shift) simp
  have l: "length [b + 2..b + int K] = K - 1" using assms(4) by simp
  show ?thesis using assms(4) by (simp add: r m u l del: map_map)
qed


lemmas tick_eval_defs = CE_ProcessMIDI_def barIndexOf_def beatsPerBar_def orFour_def tick44_def
  stopped44_def ce_init_def Let_def

text \<open>
  From a fresh start, the jump from beat 4 to beat 20 in 4/4 flushes bars 2, 3, 4, 5 and
  leaves bar 5 (0-based) tracked.
\<close>

lemma jump_from_beat_4_to_20:
  "map fst (snd (CE_ProcessMIDI ceDefaultParams
                   (fst (CE_ProcessMIDI ceDefaultParams ce_init (tick44 4))) (tick44 20)))
     = [2, 3, 4, 5]
   \<and> currentBar (fst (CE_ProcessMIDI ceDefaultParams
                   (fst (CE_ProcessMIDI ceDefaultParams ce_init (tick44 4))) (tick44 20))) = Some 5"
proof -
  have p: "playing (tick44 20)" by (simp add: tick44_def)
  have c: "currentBar (fst (CE_ProcessMIDI ceDefaultParams ce_init (tick44 4))) = Some 1"
    by (simp add: tick_eval_defs)
  have i: "barIndexOf (tick44 20) = 1 + int 4" by (simp add: tick_eval_defs)
  have k: "1 \<le> (4::nat)" by simp
  have u: "[1 + 1..1 + int 4] = [2, 3, 4, 5]" by (simp add: upto_rec1)
  from flush_from_current[OF p c i k, of ceDefaultParams] u show ?thesis by simp
qed

text \<open>
  C5. The claim fails on the code after a backward jump of a playing transport. With the
  ticks at beats 20, 0 and 4 in 4/4 (all playing, from a fresh start) the computed bar
  index is 5, then 0, then 1: it rises by 1 between the last two ticks, and the last tick
  calls \<open>flushBar\<close> not once but never, because the tracked bar is still 5. Nothing lowers
  the tracked bar while the transport plays.
\<close>

theorem C5_no_flush_after_backward_jump:
  "playing (tick44 20) \<and> playing (tick44 0) \<and> playing (tick44 4)
   \<and> barIndexOf (tick44 20) = 5 \<and> barIndexOf (tick44 0) = 0 \<and> barIndexOf (tick44 4) = 1
   \<and> snd (CE_ProcessMIDI ceDefaultParams
            (fst (CE_ProcessMIDI ceDefaultParams
                    (fst (CE_ProcessMIDI ceDefaultParams ce_init (tick44 20))) (tick44 0)))
            (tick44 4)) = []
   \<and> currentBar (fst (CE_ProcessMIDI ceDefaultParams
            (fst (CE_ProcessMIDI ceDefaultParams
                    (fst (CE_ProcessMIDI ceDefaultParams ce_init (tick44 20))) (tick44 0)))
            (tick44 4))) = Some 5"
  by (simp add: tick_eval_defs flushLoop.simps)

theorem C5_no_flush_after_backward_jump_witness:
  "snd (CE_ProcessMIDI ceDefaultParams
            (fst (CE_ProcessMIDI ceDefaultParams
                    (fst (CE_ProcessMIDI ceDefaultParams ce_init (tick44 20))) (tick44 0)))
            (tick44 4)) = []"
  using C5_no_flush_after_backward_jump by blast


section \<open>Properties of the tail generator\<close>

text \<open>
  C9. At \<open>t = 0\<close> the envelope is 1 when the attack duration is 0 and 0 when the attack
  duration is positive, in every arithmetic.
\<close>

theorem C9_envelope_at_zero:
  "(a = 0 \<longrightarrow> envelopeAtTime ar 0 a h d s r tot = 1)
   \<and> (0 < a \<longrightarrow> envelopeAtTime ar 0 a h d s r tot = 0)"
  by (simp add: envelopeAtTime_def Let_def)

theorem C9_envelope_at_zero_witness:
  "envelopeAtTime exactArith 0 0 0.0625 1 0.8 1 2 = 1
   \<and> envelopeAtTime exactArith 0 0.0625 0.0625 1 0.8 1 2 = 0"
  using C9_envelope_at_zero [of 0 exactArith "0.0625" 1 "0.8" 1 2]
        C9_envelope_at_zero [of "0.0625" exactArith "0.0625" 1 "0.8" 1 2]
  by simp

lemma tailRepeat_no_send: "filter isSend (tailRepeat ar gp src rb i) = []"
  by (simp add: tailRepeat_def Let_def)

lemma tailLoop_concat:
  "tailLoop ar gp src rb i n = concat (map (tailRepeat ar gp src rb) [i..<nat n])"
proof (induction ar gp src rb i n rule: tailLoop.induct)
  case (1 ar gp src rb i n)
  show ?case
  proof (cases "int i < n")
    case True
    then have "i < nat n" by linarith
    then have "[i..<nat n] = i # [Suc i..<nat n]" by (rule upt_conv_Cons)
    then show ?thesis using True 1 by (subst tailLoop.simps) simp
  next
    case False
    then have "\<not> i < nat n" by linarith
    then show ?thesis using False by (subst tailLoop.simps) simp
  qed
qed

lemma createTailRepeats_concat:
  "createTailRepeats ar gp src len rb =
     (if spacingOf gp \<le> 0 then []
      else concat (map (tailRepeat ar gp src rb) [0..<nat (repeatsOf gp)]))"
  by (simp add: createTailRepeats_def tailLoop_concat)

lemma createTailRepeats_no_send: "filter isSend (createTailRepeats ar gp src len rb) = []"
  by (simp add: createTailRepeats_concat filter_concat tailRepeat_no_send comp_def)

text \<open>
  C10. In both scripts the handler hands every incoming event, whatever its kind and
  whatever the state, to the host exactly once by \<open>send\<close>, unchanged. The chord logger
  sends nothing else. The tail generator sends the event last; everything before it is
  scheduled by \<open>sendAtBeat\<close>, so the tail comes in addition to the event.
\<close>

theorem C10_event_forwarded_once:
  "snd (CE_HandleMIDI s ev) = [Send ev]
   \<and> filter isSend (snd (TR_HandleMIDI ar gp st tev)) = [Send tev]
   \<and> (\<exists>tail. snd (TR_HandleMIDI ar gp st tev) = tail @ [Send tev] \<and> filter isSend tail = [])"
proof -
  have a: "snd (CE_HandleMIDI s ev) = [Send ev]" by (simp add: CE_HandleMIDI_def Let_def)
  have c: "\<exists>tail. snd (TR_HandleMIDI ar gp st tev) = tail @ [Send tev] \<and> filter isSend tail = []"
    by (auto simp: TR_HandleMIDI_def Let_def createTailRepeats_no_send split: option.split)
  then have b: "filter isSend (snd (TR_HandleMIDI ar gp st tev)) = [Send tev]" by auto
  show ?thesis using a b c by blast
qed

lemma gate_positive: "0 < spacingOf gp \<Longrightarrow> 0 < gateBeatsOf gp"
  by (auto simp: gateBeatsOf_def Let_def not_le)

lemma tailNoteOn_kind: "(tailNoteOn ar gp src i)\<lparr>kind := NoteOn\<rparr> = tailNoteOn ar gp src i"
  by (simp add: tailNoteOn_def Let_def)

lemma tailRepeat_cases:
  "tailRepeat ar gp src rb i = []
   \<or> tailRepeat ar gp src rb i =
       tailEventEffects \<lparr> onBeat = rb + gp P_DELAY + spacingOf gp * real i,
                          offBeat = rb + gp P_DELAY + spacingOf gp * real i + gateBeatsOf gp,
                          tailNote = tailNoteOn ar gp src i \<rparr>"
  by (simp add: tailRepeat_def tailEventEffects_def tailNoteOn_kind Let_def)

lemma tailRepeat_events:
  assumes "0 < spacingOf gp"
  shows "\<exists>es. tailRepeat ar gp src rb i = concat (map tailEventEffects es) \<and> length es \<le> 1
              \<and> (\<forall>e\<in>set es. onBeat e < offBeat e)"
proof -
  let ?bt = "rb + gp P_DELAY + spacingOf gp * real i"
  let ?e = "\<lparr> onBeat = ?bt, offBeat = ?bt + gateBeatsOf gp, tailNote = tailNoteOn ar gp src i \<rparr>"
  from tailRepeat_cases[of ar gp src rb i] show ?thesis
  proof
    assume "tailRepeat ar gp src rb i = []"
    then show ?thesis by (intro exI[of _ "[]"]) simp
  next
    assume "tailRepeat ar gp src rb i = tailEventEffects ?e"
    moreover have "onBeat ?e < offBeat ?e" using gate_positive[OF assms] by simp
    ultimately show ?thesis by (intro exI[of _ "[?e]"]) simp
  qed
qed

lemma tailRepeats_events:
  assumes "0 < spacingOf gp"
  shows "\<exists>es. concat (map (tailRepeat ar gp src rb) is) = concat (map tailEventEffects es)
              \<and> length es \<le> length is \<and> (\<forall>e\<in>set es. onBeat e < offBeat e)"
proof (induction "is")
  case Nil
  show ?case by (intro exI[of _ "[]"]) simp
next
  case (Cons i "is")
  then obtain es where es: "concat (map (tailRepeat ar gp src rb) is) = concat (map tailEventEffects es)"
    "length es \<le> length is" "\<forall>e\<in>set es. onBeat e < offBeat e" by blast
  obtain es1 where es1: "tailRepeat ar gp src rb i = concat (map tailEventEffects es1)"
    "length es1 \<le> 1" "\<forall>e\<in>set es1. onBeat e < offBeat e"
    using tailRepeat_events[OF assms] by blast
  show ?case using es es1 by (intro exI[of _ "es1 @ es"]) auto
qed

lemma noteOn_count: "length (filter isScheduledNoteOn (concat (map tailEventEffects es))) = length es"
  by (induction es) (simp_all add: tailEventEffects_def)

text \<open>
  C6. For every call of the tail scheduler the number of scheduled note-on events is at
  most \<open>min(max(1, round(quantity)), max(1, round(voices)))\<close>, and what it schedules is
  a sequence of tail events, each a note-on at \<open>onBeat\<close> and a note-off at \<open>offBeat\<close>
  with \<open>onBeat < offBeat\<close>.
\<close>

theorem C6_tail_count_and_gate:
  "length (filter isScheduledNoteOn (createTailRepeats ar gp src len rb))
     \<le> nat (min (max 1 (js_round (gp P_QUANTITY))) (max 1 (js_round (gp P_VOICES))))
   \<and> (\<exists>es. createTailRepeats ar gp src len rb = concat (map tailEventEffects es)
            \<and> (\<forall>e\<in>set es. onBeat e < offBeat e))"
proof (cases "spacingOf gp \<le> 0")
  case True
  then have "createTailRepeats ar gp src len rb = concat (map tailEventEffects [])"
    by (simp add: createTailRepeats_def)
  then show ?thesis by (intro conjI exI[of _ "[]"]) simp_all
next
  case False
  then have pos: "0 < spacingOf gp" by simp
  obtain es where es:
    "concat (map (tailRepeat ar gp src rb) [0..<nat (repeatsOf gp)]) = concat (map tailEventEffects es)"
    "length es \<le> length [0..<nat (repeatsOf gp)]" "\<forall>e\<in>set es. onBeat e < offBeat e"
    using tailRepeats_events[OF pos] by blast
  have eq: "createTailRepeats ar gp src len rb = concat (map tailEventEffects es)"
    using False es(1) by (simp add: createTailRepeats_concat)
  have "length (filter isScheduledNoteOn (createTailRepeats ar gp src len rb)) = length es"
    by (simp only: eq noteOn_count)
  moreover have "length es \<le> nat (repeatsOf gp)" using es(2) by simp
  ultimately have
    "length (filter isScheduledNoteOn (createTailRepeats ar gp src len rb))
       \<le> nat (min (max 1 (js_round (gp P_QUANTITY))) (max 1 (js_round (gp P_VOICES))))"
    by (simp add: repeatsOf_def quantityOf_def voicesOf_def)
  then show ?thesis using eq es(3) by blast
qed


lemma spacing_guard:
  "gp P_DENOMINATOR = 0 \<or> gp P_NUMERATOR / gp P_DENOMINATOR \<le> 0 \<Longrightarrow> spacingOf gp \<le> 0"
  by (auto simp: spacingOf_def)

text \<open>
  C8. If the denominator control is 0, or numerator/denominator is at most 0, the tail
  scheduler schedules nothing, whatever the other controls, the note and the beats
  are; the note-off handler then only forwards the event.
\<close>

theorem C8_no_spacing_no_events:
  assumes "gp P_DENOMINATOR = 0 \<or> gp P_NUMERATOR / gp P_DENOMINATOR \<le> 0"
  shows "createTailRepeats ar gp srcNoteOn lengthBeats releaseBeat = []
         \<and> snd (TR_HandleMIDI ar gp st ev) = [Send ev]"
proof -
  have c: "\<And>src len rb. createTailRepeats ar gp src len rb = []"
    using spacing_guard[OF assms] by (simp add: createTailRepeats_def)
  show ?thesis
    by (simp add: c TR_HandleMIDI_def Let_def split: option.split)
qed

lemmas tail_eval_defs = createTailRepeats_def spacingOf_def defaultParams_def repeatsOf_def
  quantityOf_def voicesOf_def js_round_def tailLoop.simps tailRepeat_def tailNoteOn_def
  tailVelocity_def adsrEnvOf_def envelopeAtTime_def envDurationFromMenu_def SYNC_DURATIONS_def
  clamp_def midiPitchToHz_def hpHzOf_def lpHzOf_def gateBeatsOf_def totalSpanOf_def
  transposeStepOf_def spacingAr_def exactArith_def exactPow_def a4On_def Let_def

lemma default_tail:
  "createTailRepeats exactArith defaultParams a4On 4 4 =
     [SendAtBeat (4083 / 1000) \<lparr>kind = NoteOn, pitch = 69, velocity = 1, channel = 1, beatPos = Some 0\<rparr>,
      SendAtBeat (6187 / 1500) \<lparr>kind = NoteOff, pitch = 69, velocity = 1, channel = 1, beatPos = Some 0\<rparr>,
      SendAtBeat (12499 / 3000) \<lparr>kind = NoteOn, pitch = 69, velocity = 100, channel = 1, beatPos = Some 0\<rparr>,
      SendAtBeat (526 / 125) \<lparr>kind = NoteOff, pitch = 69, velocity = 100, channel = 1, beatPos = Some 0\<rparr>]"
  by (simp add: tail_eval_defs)

lemma tailVelocity_spec: "0 < gp P_DECAY \<Longrightarrow> tailVelocity ar gp bv i = specVelocity ar gp bv i"
  by (simp add: tailVelocity_def specVelocity_def clamp_def Let_def)

lemma tailVelocity_no_decay:
  "\<not> 0 < gp P_DECAY \<Longrightarrow>
     tailVelocity ar gp bv i = clamp (js_round (fmul ar (fmul ar bv 1) (adsrEnvOf ar gp i))) 1 127"
  by (simp add: tailVelocity_def clamp_def Let_def)

lemma tailRepeat_velocity:
  "SendAtBeat b ev \<in> set (tailRepeat ar gp src rb i) \<Longrightarrow>
     velocity ev = real_of_int (tailVelocity ar gp (velocity src) i)"
  by (auto simp: tailRepeat_def tailNoteOn_def Let_def split: if_splits)

text \<open>
  C4 (amended). The scheduler emits, in index order, what the loop body emits for the
  indices below the repeat count. In every arithmetic of the engine, every event emitted
  for index \<open>i\<close> has velocity
  \<open>round(baseVelocity * velocityDecay^i * envelope(i*spacing, ...))\<close> clamped to [1,127]
  when the velocity decay is positive; when it is 0 (or less) the decay factor is 1
  instead of the power, so the velocity is
  \<open>round(baseVelocity * 1 * envelope(i*spacing, ...))\<close> clamped to [1,127].
\<close>

theorem C4_tail_velocity:
  "createTailRepeats ar gp src len rb =
     (if spacingOf gp \<le> 0 then []
      else concat (map (tailRepeat ar gp src rb) [0..<nat (repeatsOf gp)]))
   \<and> (\<forall>b ev. SendAtBeat b ev \<in> set (tailRepeat ar gp src rb i) \<longrightarrow>
         velocity ev = real_of_int
           (if 0 < gp P_DECAY then specVelocity ar gp (velocity src) i
            else clamp (js_round (fmul ar (fmul ar (velocity src) 1) (adsrEnvOf ar gp i))) 1 127))"
proof -
  have "tailVelocity ar gp (velocity src) i =
          (if 0 < gp P_DECAY then specVelocity ar gp (velocity src) i
           else clamp (js_round (fmul ar (fmul ar (velocity src) 1) (adsrEnvOf ar gp i))) 1 127)"
    by (simp add: tailVelocity_spec tailVelocity_no_decay)
  then show ?thesis
    using tailRepeat_velocity[of _ _ ar gp src rb i] by (simp add: createTailRepeats_concat)
qed

theorem C4_tail_velocity_witness:
  "createTailRepeats exactArith defaultParams a4On 4 4 =
     concat (map (tailRepeat exactArith defaultParams a4On 4) [0, 1])
   \<and> tailRepeat exactArith defaultParams a4On 4 1 =
     [SendAtBeat (12499 / 3000) \<lparr>kind = NoteOn, pitch = 69, velocity = 100, channel = 1, beatPos = Some 0\<rparr>,
      SendAtBeat (526 / 125) \<lparr>kind = NoteOff, pitch = 69, velocity = 100, channel = 1, beatPos = Some 0\<rparr>]
   \<and> real_of_int (specVelocity exactArith defaultParams (velocity a4On) 1) = 100"
proof -
  have r: "tailRepeat exactArith defaultParams a4On 4 1 =
     [SendAtBeat (12499 / 3000) \<lparr>kind = NoteOn, pitch = 69, velocity = 100, channel = 1, beatPos = Some 0\<rparr>,
      SendAtBeat (526 / 125) \<lparr>kind = NoteOff, pitch = 69, velocity = 100, channel = 1, beatPos = Some 0\<rparr>]"
    by (simp add: tail_eval_defs)
  have d: "0 < defaultParams P_DECAY" by (simp add: defaultParams_def)
  have s: "\<not> spacingOf defaultParams \<le> 0" by (simp add: spacingOf_def defaultParams_def)
  have n: "[0..<nat (repeatsOf defaultParams)] = [0, 1]"
    by (simp add: repeatsOf_def quantityOf_def voicesOf_def js_round_def defaultParams_def upt_rec)
  from C4_tail_velocity[of exactArith defaultParams a4On 4 4 1]
  have a: "createTailRepeats exactArith defaultParams a4On 4 4 =
             concat (map (tailRepeat exactArith defaultParams a4On 4) [0, 1])"
    and v: "\<forall>b ev. SendAtBeat b ev \<in> set (tailRepeat exactArith defaultParams a4On 4 1) \<longrightarrow>
              velocity ev = real_of_int (specVelocity exactArith defaultParams (velocity a4On) 1)"
    using d s n by simp_all
  have "SendAtBeat (12499 / 3000) \<lparr>kind = NoteOn, pitch = 69, velocity = 100, channel = 1, beatPos = Some 0\<rparr>
          \<in> set (tailRepeat exactArith defaultParams a4On 4 1)"
    by (subst r) simp
  with v have "real_of_int (specVelocity exactArith defaultParams (velocity a4On) 1) = 100" by fastforce
  with a r show ?thesis by simp
qed

text \<open>
  With a velocity decay of 0 the repeat of index 1 is emitted with velocity 100, where
  the formula with \<open>0^1\<close> gives 0, clamped to 1. At this input the repeat is in the hold
  stage, where the envelope is the constant 1, and the products are 100 * 1 * 1 in the
  code and 100 * 0 * 1 in the formula, which no rounding changes.
\<close>

theorem C4_tail_velocity_counterexample:
  "createTailRepeats exactArith zeroDecayParams a4On 4 4 =
     [SendAtBeat (4083 / 1000) \<lparr>kind = NoteOn, pitch = 69, velocity = 1, channel = 1, beatPos = Some 0\<rparr>,
      SendAtBeat (6187 / 1500) \<lparr>kind = NoteOff, pitch = 69, velocity = 1, channel = 1, beatPos = Some 0\<rparr>,
      SendAtBeat (12499 / 3000) \<lparr>kind = NoteOn, pitch = 69, velocity = 100, channel = 1, beatPos = Some 0\<rparr>,
      SendAtBeat (526 / 125) \<lparr>kind = NoteOff, pitch = 69, velocity = 100, channel = 1, beatPos = Some 0\<rparr>]
   \<and> tailRepeat exactArith zeroDecayParams a4On 4 1 =
     [SendAtBeat (12499 / 3000) \<lparr>kind = NoteOn, pitch = 69, velocity = 100, channel = 1, beatPos = Some 0\<rparr>,
      SendAtBeat (526 / 125) \<lparr>kind = NoteOff, pitch = 69, velocity = 100, channel = 1, beatPos = Some 0\<rparr>]
   \<and> zeroDecayParams P_DECAY = 0
   \<and> specVelocity exactArith zeroDecayParams (velocity a4On) 1 = 1"
  by (simp add: specVelocity_def zeroDecayParams_def tail_eval_defs)

theorem C6_tail_count_and_gate_witness:
  "length (filter isScheduledNoteOn (createTailRepeats exactArith defaultParams a4On 4 4)) = 2
   \<and> length (filter isScheduledNoteOn (createTailRepeats exactArith defaultParams a4On 4 4))
        \<le> nat (min (max 1 (js_round (defaultParams P_QUANTITY))) (max 1 (js_round (defaultParams P_VOICES))))
   \<and> (\<exists>es. createTailRepeats exactArith defaultParams a4On 4 4 = concat (map tailEventEffects es)
            \<and> (\<forall>e\<in>set es. onBeat e < offBeat e))"
  using C6_tail_count_and_gate[of exactArith defaultParams a4On 4 4] by (simp add: default_tail)

theorem C8_no_spacing_no_events_witness:
  "zeroDenominatorParams P_DENOMINATOR = 0
   \<and> createTailRepeats exactArith zeroDenominatorParams a4On 4 4 = []
   \<and> activeNotes heldA4 (69, 1) = Some \<lparr> noteOn = a4On, startBeat = 0 \<rparr>
   \<and> snd (TR_HandleMIDI exactArith zeroDenominatorParams heldA4 a4Off) = [Send a4Off]"
proof -
  have h: "zeroDenominatorParams P_DENOMINATOR = 0" by (simp add: zeroDenominatorParams_def)
  then have "zeroDenominatorParams P_DENOMINATOR = 0
             \<or> zeroDenominatorParams P_NUMERATOR / zeroDenominatorParams P_DENOMINATOR \<le> 0" by simp
  from C8_no_spacing_no_events[OF this, of exactArith a4On 4 4 heldA4 a4Off] h
  show ?thesis by (simp add: heldA4_def TR_HandleMIDI_def tr_init_def a4On_def noteKey_def Let_def)
qed

theorem C10_event_forwarded_once_witness:
  "snd (CE_HandleMIDI ce_init \<lparr>kind = NoteOn, pitch = 60, velocity = 100, channel = 1, beatPos = None\<rparr>)
     = [Send \<lparr>kind = NoteOn, pitch = 60, velocity = 100, channel = 1, beatPos = None\<rparr>]
   \<and> filter isSend (snd (TR_HandleMIDI exactArith defaultParams heldA4 a4Off)) = [Send a4Off]
   \<and> length (snd (TR_HandleMIDI exactArith defaultParams heldA4 a4Off)) = 5"
proof -
  have "snd (TR_HandleMIDI exactArith defaultParams heldA4 a4Off) = createTailRepeats exactArith defaultParams a4On 4 4 @ [Send a4Off]"
    by (simp add: heldA4_def TR_HandleMIDI_def tr_init_def a4On_def a4Off_def noteKey_def Let_def)
  then have "length (snd (TR_HandleMIDI exactArith defaultParams heldA4 a4Off)) = 5" by (simp add: default_tail)
  then show ?thesis
    using C10_event_forwarded_once[of ce_init
        "\<lparr>kind = NoteOn, pitch = 60, velocity = 100, channel = 1, beatPos = None\<rparr>"
        exactArith defaultParams heldA4 a4Off]
    by simp
qed


section \<open>Transport stop\<close>

lemma lastPlayed_after_tick: "lastPlayed (fst (CE_ProcessMIDI gp s t)) = playing t"
  by (simp add: CE_ProcessMIDI_def Let_def case_prod_beta)

lemma lastPlayed_HandleMIDI: "lastPlayed (fst (CE_HandleMIDI s ev)) = lastPlayed s"
  by (simp add: CE_HandleMIDI_def Let_def)

lemma lastPlayed_handleAll: "lastPlayed (CE_handleAll s evs) = lastPlayed s"
  by (induction evs arbitrary: s) (simp_all add: lastPlayed_HandleMIDI)

lemma reset_when_flag_set:
  "lastPlayed s \<Longrightarrow> \<not> playing t \<Longrightarrow>
     CE_ProcessMIDI gp s t = (\<lparr> currentBar = None, barPitches = [], lastPlayed = False \<rparr>, [])"
  by (cases s) (simp add: CE_ProcessMIDI_def Let_def)

text \<open>
  C2 (amended). Take a tick that reports a playing transport, any events handled after
  it, and then a tick that reports a stopped transport. The second tick clears the chord
  logger's current bar and its bar pitch list and flushes nothing, so no pitch collected
  before the stop reaches a later flush. The tail generator's tick handler never changes
  the active-note map, on a stop or otherwise: it only records the block start beat.
\<close>

theorem C2_reset_on_stop:
  "(playing t1 \<and> \<not> playing t2 \<longrightarrow>
      CE_ProcessMIDI gp (CE_handleAll (fst (CE_ProcessMIDI gp s t1)) evs) t2
        = (\<lparr> currentBar = None, barPitches = [], lastPlayed = False \<rparr>, []))
   \<and> activeNotes (TR_ProcessMIDI st info) = activeNotes st"
proof -
  have "CE_ProcessMIDI gp (CE_handleAll (fst (CE_ProcessMIDI gp s t1)) evs) t2
          = (\<lparr> currentBar = None, barPitches = [], lastPlayed = False \<rparr>, [])"
    if "playing t1" and "\<not> playing t2"
  proof -
    have "lastPlayed (CE_handleAll (fst (CE_ProcessMIDI gp s t1)) evs)"
      using that(1) by (simp add: lastPlayed_handleAll lastPlayed_after_tick)
    then show ?thesis using that(2) by (rule reset_when_flag_set)
  qed
  moreover have "activeNotes (TR_ProcessMIDI st info) = activeNotes st"
    by (simp add: TR_ProcessMIDI_def split: option.split)
  ultimately show ?thesis by blast
qed

theorem C2_reset_on_stop_witness:
  "barPitches (CE_handleAll (fst (CE_ProcessMIDI ceDefaultParams ce_init (tick44 0)))
       [\<lparr>kind = NoteOn, pitch = 60, velocity = 100, channel = 1, beatPos = None\<rparr>]) = [60]
   \<and> CE_ProcessMIDI ceDefaultParams
       (CE_handleAll (fst (CE_ProcessMIDI ceDefaultParams ce_init (tick44 0)))
          [\<lparr>kind = NoteOn, pitch = 60, velocity = 100, channel = 1, beatPos = None\<rparr>])
       (stopped44 2)
     = (\<lparr> currentBar = None, barPitches = [], lastPlayed = False \<rparr>, [])
   \<and> activeNotes (TR_ProcessMIDI heldA4 (Some (stopped44 2))) = activeNotes heldA4"
proof -
  have b: "barPitches (CE_handleAll (fst (CE_ProcessMIDI ceDefaultParams ce_init (tick44 0)))
       [\<lparr>kind = NoteOn, pitch = 60, velocity = 100, channel = 1, beatPos = None\<rparr>]) = [60]"
    by (simp add: tick_eval_defs CE_HandleMIDI_def)
  have p: "playing (tick44 0) \<and> \<not> playing (stopped44 2)" by (simp add: tick44_def stopped44_def)
  from C2_reset_on_stop[of "tick44 0" "stopped44 2" ceDefaultParams ce_init
      "[\<lparr>kind = NoteOn, pitch = 60, velocity = 100, channel = 1, beatPos = None\<rparr>]"
      heldA4 "Some (stopped44 2)"] p b
  show ?thesis by blast
qed

text \<open>
  A note opened before the stop is still in the active-note map after the stop, and its
  note-off, arriving later, is matched and starts a tail.
\<close>

theorem C2_reset_on_stop_counterexample:
  "activeNotes (TR_ProcessMIDI (TR_ProcessMIDI heldA4 (Some (tick44 0))) (Some (stopped44 2))) (69, 1)
     = Some \<lparr> noteOn = a4On, startBeat = 0 \<rparr>
   \<and> snd (TR_HandleMIDI exactArith defaultParams
            (TR_ProcessMIDI (TR_ProcessMIDI heldA4 (Some (tick44 0))) (Some (stopped44 2))) a4Off)
     = [SendAtBeat (4083 / 1000) \<lparr>kind = NoteOn, pitch = 69, velocity = 1, channel = 1, beatPos = Some 0\<rparr>,
        SendAtBeat (6187 / 1500) \<lparr>kind = NoteOff, pitch = 69, velocity = 1, channel = 1, beatPos = Some 0\<rparr>,
        SendAtBeat (12499 / 3000) \<lparr>kind = NoteOn, pitch = 69, velocity = 100, channel = 1, beatPos = Some 0\<rparr>,
        SendAtBeat (526 / 125) \<lparr>kind = NoteOff, pitch = 69, velocity = 100, channel = 1, beatPos = Some 0\<rparr>,
        Send a4Off]"
proof -
  have a: "activeNotes (TR_ProcessMIDI (TR_ProcessMIDI heldA4 (Some (tick44 0))) (Some (stopped44 2))) (69, 1)
     = Some \<lparr> noteOn = a4On, startBeat = 0 \<rparr>"
    by (simp add: TR_ProcessMIDI_def heldA4_def TR_HandleMIDI_def tr_init_def a4On_def noteKey_def Let_def)
  have "snd (TR_HandleMIDI exactArith defaultParams
            (TR_ProcessMIDI (TR_ProcessMIDI heldA4 (Some (tick44 0))) (Some (stopped44 2))) a4Off)
        = createTailRepeats exactArith defaultParams a4On 4 4 @ [Send a4Off]"
    by (simp add: TR_HandleMIDI_def a a4Off_def noteKey_def Let_def)
  then show ?thesis using a by (simp add: default_tail)
qed

end
